theory Spec2Isabelle
  imports Complex_Main "HOL-Library.AList"
begin

section \<open>Python values and exceptions\<close>

text \<open>
  The fragment of Python's object universe that the wrappers and the query logic touch.
  A \<open>timedelta\<close> is its total number of microseconds; a float is the rational it denotes
  (the properties below never depend on rounding); a closure stored in a dictionary is
  \<open>PCallable\<close> with its name; an instance of a result class wrapping a raw result is
  \<open>PObject\<close>.
\<close>

datatype QueryScanConsistency = NOT_BOUNDED | REQUEST_PLUS | AT_PLUS

datatype pyval =
    PNone
  | PBool bool
  | PInt int
  | PFloat rat
  | PStr string
  | PList "pyval list"
  | PDict "(string \<times> pyval) list"
  | PTimedelta int
  | PScanConsistency QueryScanConsistency
  | PCallable string
  | PObject string pyval

text \<open>Python truthiness (\<open>not value\<close>, \<open>if value\<close>).\<close>

fun truthy :: "pyval \<Rightarrow> bool" where
  "truthy PNone = False"
| "truthy (PBool b) = b"
| "truthy (PInt i) = (i \<noteq> 0)"
| "truthy (PFloat r) = (r \<noteq> 0)"
| "truthy (PStr s) = (s \<noteq> [])"
| "truthy (PList xs) = (xs \<noteq> [])"
| "truthy (PDict kvs) = (kvs \<noteq> [])"
| "truthy (PTimedelta us) = (us \<noteq> 0)"
| "truthy (PScanConsistency _) = True"
| "truthy (PCallable _) = True"
| "truthy (PObject _ _) = True"

text \<open>
  The classes of \<open>couchbase.exceptions\<close> that the modelled code names, all of them
  subclasses of \<open>CouchbaseException\<close>; \<open>MappedException\<close> stands for any other class
  stored in the error map.
\<close>

datatype cb_class =
    CouchbaseException
  | InvalidArgumentException
  | MissingConnectionException
  | InternalSDKException
  | MappedException string

text \<open>
  A raised exception: an instance of \<open>CouchbaseException\<close> (class, message, \<open>exc_info\<close>),
  a \<open>TypeError\<close>, a \<open>ValueError\<close>, any other subclass of \<open>Exception\<close> (class name and
  \<open>str(e)\<close>), or a \<open>BaseException\<close> outside \<open>Exception\<close>.
\<close>

datatype py_exc =
    CouchbaseExc cb_class pyval "(string \<times> pyval) list"
  | PyTypeError string
  | PyValueError string
  | PyException string string
  | PyBaseException string

fun str_of_message :: "pyval \<Rightarrow> string" where
  "str_of_message (PStr s) = s"
| "str_of_message _ = []"

fun str_exc :: "py_exc \<Rightarrow> string" where
  "str_exc (CouchbaseExc _ m _) = str_of_message m"
| "str_exc (PyTypeError m) = m"
| "str_exc (PyValueError m) = m"
| "str_exc (PyException _ m) = m"
| "str_exc (PyBaseException m) = m"

text \<open>
  \<open>PYCBC_ERROR_MAP\<close> and \<open>ExceptionMap.InternalSDKException.value\<close> live in
  \<open>couchbase/exceptions.py\<close>; they are parameters of the model.
\<close>

record exc_env =
  PYCBC_ERROR_MAP :: "int \<rightharpoonup> cb_class"
  InternalSDKException_value :: int

text \<open>\<open>PYCBC_ERROR_MAP.get(key, CouchbaseException)\<close> for a key that is any Python value.\<close>

fun error_map_get :: "exc_env \<Rightarrow> pyval \<Rightarrow> py_exc + cb_class" where
  "error_map_get env (PInt i) =
     Inr (case PYCBC_ERROR_MAP env i of None \<Rightarrow> CouchbaseException | Some c \<Rightarrow> c)"
| "error_map_get env (PBool b) =
     Inr (case PYCBC_ERROR_MAP env (if b then 1 else 0) of
            None \<Rightarrow> CouchbaseException | Some c \<Rightarrow> c)"
| "error_map_get env (PFloat r) =
     Inr (if of_int \<lfloor>r\<rfloor> = r
          then (case PYCBC_ERROR_MAP env \<lfloor>r\<rfloor> of None \<Rightarrow> CouchbaseException | Some c \<Rightarrow> c)
          else CouchbaseException)"
| "error_map_get env (PList _) = Inl (PyTypeError ''unhashable type: list'')"
| "error_map_get env (PDict _) = Inl (PyTypeError ''unhashable type: dict'')"
| "error_map_get env _ = Inr CouchbaseException"

definition internal_sdk_class :: "exc_env \<Rightarrow> cb_class" where
  "internal_sdk_class env =
     (case PYCBC_ERROR_MAP env (InternalSDKException_value env) of
        None \<Rightarrow> CouchbaseException | Some c \<Rightarrow> c)"

section \<open>The asyncio future and event loop\<close>

text \<open>
  \<open>asyncio.Future\<close>: \<open>set_result\<close> and \<open>set_exception\<close> raise \<open>InvalidStateError\<close> on a
  future that is already done, \<open>cancel\<close> does nothing there, \<open>exception\<close> raises on a
  pending or cancelled future.
\<close>

datatype future = Pending | Finished pyval | Failed py_exc | Cancelled

definition InvalidStateError :: py_exc where
  "InvalidStateError = PyException ''InvalidStateError'' ''invalid state''"

definition set_result :: "future \<Rightarrow> pyval \<Rightarrow> py_exc + future" where
  "set_result f v = (if f = Pending then Inr (Finished v) else Inl InvalidStateError)"

definition set_exception :: "future \<Rightarrow> py_exc \<Rightarrow> py_exc + future" where
  "set_exception f e = (if f = Pending then Inr (Failed e) else Inl InvalidStateError)"

definition cancel :: "future \<Rightarrow> future" where
  "cancel f = (if f = Pending then Cancelled else f)"

definition cancelled :: "future \<Rightarrow> bool" where
  "cancelled f = (f = Cancelled)"

fun exception :: "future \<Rightarrow> py_exc + py_exc option" where
  "exception Pending = Inl InvalidStateError"
| "exception Cancelled = Inl (PyBaseException ''CancelledError'')"
| "exception (Finished _) = Inr None"
| "exception (Failed e) = Inr (Some e)"

text \<open>
  What \<open>loop.call_soon_threadsafe\<close> queues: a bound method of the operation's future with
  its argument.
\<close>

datatype handle = SetResult pyval | SetException py_exc

text \<open>
  A Python \<open>dict\<close> with string keys is an association list in insertion order
  (\<open>map_of\<close> reads it, \<open>AList.update\<close> stores, \<open>AList.delete\<close> pops). A call that reached
  the native engine is the engine function's name and its keyword arguments.
\<close>

type_synonym pydict = "(string \<times> pyval) list"

datatype native_call = NativeCall string pydict

text \<open>A done-callback registered on a connect future (\<open>functools.partial\<close> of a class method).\<close>

datatype chained =
    ChainFutures bool pydict
  | ChainConnectFutures pydict

text \<open>
  The state one wrapped call works on: the operation's future \<open>ft\<close>, the loop's ready queue
  and the exceptions its exception handler received, the calls made to the engine, the
  node's own \<open>_connection\<close>, its parent's connection, the done-callbacks registered on the
  connect future and the number of connect futures requested.
\<close>

record async_state =
  ft :: future
  ready :: "handle list"
  logged :: "py_exc list"
  native :: "native_call list"
  self_connection :: pyval
  parent_connection :: pyval
  done_callbacks :: "chained list"
  connects :: nat

text \<open>
  What running the wrapped logic function \<open>fn(self, *args, **kwargs)\<close> does: the engine
  calls it makes and the exception it raises, if any. It reads \<open>self._connection\<close>.
\<close>

record fn_result =
  invoked :: "native_call list"
  raised :: "py_exc option"

type_synonym op_fn = "pyval \<Rightarrow> pyval list \<Rightarrow> pydict \<Rightarrow> fn_result"

section \<open>acouchbase/logic/wrappers.py\<close>

definition call_async_fn ::
  "exc_env \<Rightarrow> async_state \<Rightarrow> op_fn \<Rightarrow> pyval list \<Rightarrow> pydict \<Rightarrow> py_exc + async_state" where
  "call_async_fn env st fn args kwargs =
     (let r = fn (self_connection st) args kwargs;
          st1 = st\<lparr>native := native st @ invoked r\<rparr>
      in case raised r of
           None \<Rightarrow> Inr st1
         | Some (CouchbaseExc c m i) \<Rightarrow>
             (case set_exception (ft st1) (CouchbaseExc c m i) of
                Inl x \<Rightarrow> Inl x | Inr f \<Rightarrow> Inr (st1\<lparr>ft := f\<rparr>))
         | Some (PyTypeError m) \<Rightarrow>
             (case set_exception (ft st1) (PyTypeError m) of
                Inl x \<Rightarrow> Inl x | Inr f \<Rightarrow> Inr (st1\<lparr>ft := f\<rparr>))
         | Some (PyValueError m) \<Rightarrow>
             (case set_exception (ft st1) (PyValueError m) of
                Inl x \<Rightarrow> Inl x | Inr f \<Rightarrow> Inr (st1\<lparr>ft := f\<rparr>))
         | Some (PyException c m) \<Rightarrow>
             (case set_exception (ft st1)
                     (CouchbaseExc (internal_sdk_class env) (PStr m) []) of
                Inl x \<Rightarrow> Inl x | Inr f \<Rightarrow> Inr (st1\<lparr>ft := f\<rparr>))
         | Some (PyBaseException m) \<Rightarrow> Inl (PyBaseException m))"

text \<open>\<open>kwargs.pop("args", None)\<close> followed by \<open>*args\<close>: unpacking \<open>None\<close> is a \<open>TypeError\<close>.\<close>

fun star_args :: "pyval option \<Rightarrow> py_exc + pyval list" where
  "star_args (Some (PList xs)) = Inr xs"
| "star_args _ = Inl (PyTypeError ''argument after * must be an iterable'')"

definition chain_connect_futures ::
  "exc_env \<Rightarrow> async_state \<Rightarrow> op_fn \<Rightarrow> future \<Rightarrow> pydict \<Rightarrow> py_exc + async_state" where
  "chain_connect_futures env st fn cft kwargs =
     (if cancelled cft then Inr (st\<lparr>ft := cancel (ft st)\<rparr>)
      else case exception cft of
             Inl x \<Rightarrow> Inl x
           | Inr (Some exc) \<Rightarrow>
               (case set_exception (ft st) exc of
                  Inl x \<Rightarrow> Inl x | Inr f \<Rightarrow> Inr (st\<lparr>ft := f\<rparr>))
           | Inr None \<Rightarrow>
               (let st1 = st\<lparr>self_connection := parent_connection st\<rparr>
                in case star_args (map_of kwargs ''args'') of
                     Inl x \<Rightarrow> Inl x
                   | Inr args \<Rightarrow> call_async_fn env st1 fn args (AList.delete ''args'' kwargs)))"

definition chain_futures ::
  "exc_env \<Rightarrow> async_state \<Rightarrow> op_fn \<Rightarrow> future \<Rightarrow> bool \<Rightarrow> pydict \<Rightarrow> py_exc + async_state" where
  "chain_futures env st fn cft set_connection kwargs =
     (if cancelled cft then Inr (st\<lparr>ft := cancel (ft st)\<rparr>)
      else case exception cft of
             Inl x \<Rightarrow> Inl x
           | Inr (Some exc) \<Rightarrow>
               (case set_exception (ft st) exc of
                  Inl x \<Rightarrow> Inl x | Inr f \<Rightarrow> Inr (st\<lparr>ft := f\<rparr>))
           | Inr None \<Rightarrow>
               (let st1 = (if set_connection
                           then st\<lparr>self_connection := parent_connection st\<rparr> else st)
                in case star_args (map_of kwargs ''args'') of
                     Inl x \<Rightarrow> Inl x
                   | Inr args \<Rightarrow> call_async_fn env st1 fn args (AList.delete ''args'' kwargs)))"

text \<open>
  The attributes class \<open>AsyncWrapper\<close> defines (it has no base class); \<open>cls.name\<close> on any
  other name raises \<open>AttributeError\<close>.
\<close>

definition AsyncWrapper_attrs :: "string list" where
  "AsyncWrapper_attrs =
     [''inject_connection_callbacks'', ''inject_close_callbacks'', ''chain_connect_futures'',
      ''inject_bucket_open_callbacks'', ''chain_futures'', ''inject_cluster_callbacks'',
      ''inject_callbacks'', ''inject_callbacks_and_decode'', ''datastructure_op'']"

definition AsyncWrapper_getattr :: "string \<Rightarrow> py_exc + string" where
  "AsyncWrapper_getattr name =
     (if name \<in> set AsyncWrapper_attrs then Inr name
      else Inl (PyException ''AttributeError''
                  (''type object AsyncWrapper has no attribute '' @ name)))"

text \<open>The callbacks every decorator stores in \<open>kwargs\<close> before it looks at the connection.\<close>

definition with_callbacks :: "pydict \<Rightarrow> pydict" where
  "with_callbacks kwargs =
     AList.update ''errback'' (PCallable ''on_err'')
       (AList.update ''callback'' (PCallable ''on_ok'') kwargs)"

text \<open>
  \<open>wrapped_fn\<close> of \<open>AsyncWrapper.inject_cluster_callbacks\<close>. The decorator's \<open>return_cls\<close>
  and \<open>set_cluster_info\<close> are read by \<open>on_ok\<close> only. \<open>self.on_connect()\<close> is defined
  outside the modelled files: the model counts the request and registers the done-callback
  on the future it returns.
\<close>

definition inject_cluster_callbacks ::
  "exc_env \<Rightarrow> bool \<Rightarrow> op_fn \<Rightarrow> async_state \<Rightarrow> pyval list \<Rightarrow> pydict \<Rightarrow> py_exc + async_state" where
  "inject_cluster_callbacks env chain_connection fn st args kwargs =
     (let st1 = st\<lparr>ft := Pending\<rparr>;
          kw = with_callbacks kwargs
      in if \<not> truthy (self_connection st1) then
           (if chain_connection then
              (let st2 = st1\<lparr>connects := Suc (connects st1)\<rparr>;
                   kw2 = AList.update ''args'' (PList args) kw
               in case AsyncWrapper_getattr ''chain_futures'' of
                    Inl x \<Rightarrow> Inl x
                  | Inr _ \<Rightarrow> Inr (st2\<lparr>done_callbacks :=
                                        done_callbacks st2 @ [ChainFutures False kw2]\<rparr>))
            else
              (case set_exception (ft st1)
                      (CouchbaseExc MissingConnectionException
                         (PStr ''Not connected.  Cannot perform operation.'') []) of
                 Inl x \<Rightarrow> Inl x | Inr f \<Rightarrow> Inr (st1\<lparr>ft := f\<rparr>)))
         else call_async_fn env st1 fn args kw)"

text \<open>
  \<open>wrapped_fn\<close> of \<open>AsyncWrapper.inject_callbacks\<close>; \<open>self._scope._connect_bucket()\<close> is
  treated like \<open>on_connect\<close> above.
\<close>

definition inject_callbacks ::
  "exc_env \<Rightarrow> op_fn \<Rightarrow> async_state \<Rightarrow> pyval list \<Rightarrow> pydict \<Rightarrow> py_exc + async_state" where
  "inject_callbacks env fn st args kwargs =
     (let st1 = st\<lparr>ft := Pending\<rparr>;
          kw = with_callbacks kwargs
      in if \<not> truthy (self_connection st1) then
           (let st2 = st1\<lparr>connects := Suc (connects st1)\<rparr>;
                kw2 = AList.update ''args'' (PList args) kw
            in case AsyncWrapper_getattr ''chain_futures'' of
                 Inl x \<Rightarrow> Inl x
               | Inr _ \<Rightarrow> Inr (st2\<lparr>done_callbacks :=
                                     done_callbacks st2 @ [ChainFutures True kw2]\<rparr>))
         else call_async_fn env st1 fn args kw)"

text \<open>
  \<open>wrapped_fn\<close> of \<open>AsyncWrapper.inject_callbacks_and_decode\<close>: it pops the transcoder
  (\<open>KeyError\<close> when absent) and, with no connection, looks up \<open>cls._chain_futures\<close>.
\<close>

definition inject_callbacks_and_decode ::
  "exc_env \<Rightarrow> op_fn \<Rightarrow> async_state \<Rightarrow> pyval list \<Rightarrow> pydict \<Rightarrow> py_exc + async_state" where
  "inject_callbacks_and_decode env fn st args kwargs =
     (let st1 = st\<lparr>ft := Pending\<rparr>
      in case map_of kwargs ''transcoder'' of
           None \<Rightarrow> Inl (PyException ''KeyError'' ''transcoder'')
         | Some transcoder \<Rightarrow>
             (let kw = with_callbacks (AList.delete ''transcoder'' kwargs)
              in if \<not> truthy (self_connection st1) then
                   (let st2 = st1\<lparr>connects := Suc (connects st1)\<rparr>;
                        kw2 = AList.update ''args'' (PList args) kw
                    in case AsyncWrapper_getattr ''_chain_futures'' of
                         Inl x \<Rightarrow> Inl x
                       | Inr _ \<Rightarrow> Inr (st2\<lparr>done_callbacks :=
                                             done_callbacks st2 @ [ChainFutures True kw2]\<rparr>))
                 else call_async_fn env st1 fn args kw))"

text \<open>
  \<open>wrapped_fn\<close> of \<open>AsyncWrapper.inject_bucket_open_callbacks\<close>, whose connect step is the
  cluster's.
\<close>

definition inject_bucket_open_callbacks ::
  "exc_env \<Rightarrow> op_fn \<Rightarrow> async_state \<Rightarrow> pyval list \<Rightarrow> pydict \<Rightarrow> py_exc + async_state" where
  "inject_bucket_open_callbacks env fn st args kwargs =
     (let st1 = st\<lparr>ft := Pending\<rparr>;
          kw = with_callbacks kwargs
      in if \<not> truthy (self_connection st1) then
           (let st2 = st1\<lparr>connects := Suc (connects st1)\<rparr>;
                kw2 = AList.update ''args'' (PList args) kw
            in case AsyncWrapper_getattr ''chain_connect_futures'' of
                 Inl x \<Rightarrow> Inl x
               | Inr _ \<Rightarrow> Inr (st2\<lparr>done_callbacks :=
                                     done_callbacks st2 @ [ChainConnectFutures kw2]\<rparr>))
         else call_async_fn env st1 fn args kw)"

text \<open>The loop runs a registered done-callback once the connect future \<open>cft\<close> is done.\<close>

fun run_done_callback ::
  "exc_env \<Rightarrow> op_fn \<Rightarrow> future \<Rightarrow> chained \<Rightarrow> async_state \<Rightarrow> py_exc + async_state" where
  "run_done_callback env fn cft (ChainFutures set_connection kwargs) st =
     chain_futures env st fn cft set_connection kwargs"
| "run_done_callback env fn cft (ChainConnectFutures kwargs) st =
     chain_connect_futures env st fn cft kwargs"

subsection \<open>The callbacks handed to the engine\<close>

datatype return_cls = RcNone | RcTrue | RcClass string

fun retval :: "return_cls \<Rightarrow> pyval \<Rightarrow> pyval" where
  "retval RcNone res = PNone"
| "retval RcTrue res = res"
| "retval (RcClass c) res = PObject c res"

text \<open>
  The engine's error object, and \<open>ErrorMapperNew.build_exception\<close> of
  \<open>couchbase/exceptions.py\<close> as a parameter \<open>build\<close> of \<open>on_err\<close>.
\<close>

record native_exc =
  err :: int
  strerror :: string
  error_context :: pyval

definition on_ok :: "return_cls \<Rightarrow> pyval \<Rightarrow> async_state \<Rightarrow> async_state" where
  "on_ok return_cls res st = st\<lparr>ready := ready st @ [SetResult (retval return_cls res)]\<rparr>"

definition on_err :: "(native_exc \<Rightarrow> py_exc) \<Rightarrow> native_exc \<Rightarrow> async_state \<Rightarrow> async_state" where
  "on_err build exc st = st\<lparr>ready := ready st @ [SetException (build exc)]\<rparr>"

text \<open>
  The loop takes the oldest handle and runs it; an exception the handle raises goes to the
  loop's exception handler, which logs it (\<open>Handle._run\<close>).
\<close>

fun run_handle :: "handle \<Rightarrow> future \<Rightarrow> py_exc + future" where
  "run_handle (SetResult v) f = set_result f v"
| "run_handle (SetException e) f = set_exception f e"

definition run_once :: "async_state \<Rightarrow> async_state" where
  "run_once st =
     (case ready st of
        [] \<Rightarrow> st
      | h # hs \<Rightarrow>
          (case run_handle h (ft st) of
             Inl x \<Rightarrow> st\<lparr>ready := hs, logged := logged st @ [x]\<rparr>
           | Inr f \<Rightarrow> st\<lparr>ready := hs, ft := f\<rparr>))"

text \<open>
  What can happen to a submitted operation, in any order: the engine calls the success
  callback, the engine calls the failure callback, the loop runs one handle.
\<close>

datatype event = NativeOk pyval | NativeErr native_exc | LoopRun

fun step :: "return_cls \<Rightarrow> (native_exc \<Rightarrow> py_exc) \<Rightarrow> async_state \<Rightarrow> event \<Rightarrow> async_state" where
  "step rc build st (NativeOk res) = on_ok rc res st"
| "step rc build st (NativeErr exc) = on_err build exc st"
| "step rc build st LoopRun = run_once st"

definition run_events ::
  "return_cls \<Rightarrow> (native_exc \<Rightarrow> py_exc) \<Rightarrow> event list \<Rightarrow> async_state \<Rightarrow> async_state" where
  "run_events rc build evs st = foldl (step rc build) st evs"

definition drain :: "async_state \<Rightarrow> async_state" where
  "drain st = (run_once ^^ length (ready st)) st"

text \<open>The future state a callback asks for.\<close>

fun resolution :: "return_cls \<Rightarrow> (native_exc \<Rightarrow> py_exc) \<Rightarrow> event \<Rightarrow> future" where
  "resolution rc build (NativeOk res) = Finished (retval rc res)"
| "resolution rc build (NativeErr exc) = Failed (build exc)"
| "resolution rc build LoopRun = Pending"

section \<open>acouchbase/management/logic/wrappers.py\<close>

definition mgmt_inject_callbacks ::
  "exc_env \<Rightarrow> op_fn \<Rightarrow> async_state \<Rightarrow> pyval list \<Rightarrow> pydict \<Rightarrow> py_exc + async_state" where
  "mgmt_inject_callbacks env fn st args kwargs =
     (let st1 = st\<lparr>ft := Pending\<rparr>;
          kw = with_callbacks kwargs
      in if \<not> truthy (self_connection st1) then
           (case set_exception (ft st1)
                   (CouchbaseExc MissingConnectionException
                      (PStr ''Not connected.  Cannot perform bucket management operation.'') []) of
              Inl x \<Rightarrow> Inl x | Inr f \<Rightarrow> Inr (st1\<lparr>ft := f\<rparr>))
         else call_async_fn env st1 fn args kw)"

section \<open>couchbase/logic/collection.py\<close>

record collection =
  bucket_name :: string
  scope_name :: string
  collection_name :: string

definition get_connection_args :: "collection \<Rightarrow> pyval \<Rightarrow> pydict" where
  "get_connection_args self conn =
     [(''conn'', conn), (''bucket'', PStr (bucket_name self)),
      (''scope'', PStr (scope_name self)), (''collection_name'', PStr (collection_name self))]"

text \<open>Decimal rendering of a length inside an f-string.\<close>

fun str_nat :: "nat \<Rightarrow> string" where
  "str_nat n =
     (if n < 10 then [char_of (48 + n)]
      else str_nat (n div 10) @ [char_of (48 + n mod 10)])"

declare str_nat.simps [simp del]

text \<open>
  A call \<open>kv_operation(**a, **b, key=..., op_type=...)\<close>: a keyword given twice is a
  \<open>TypeError\<close> raised before the engine is entered.
\<close>

definition kv_operation :: "pydict \<Rightarrow> fn_result" where
  "kv_operation kw =
     (if distinct (map fst kw)
      then \<lparr>invoked = [NativeCall ''kv_operation'' kw], raised = None\<rparr>
      else \<lparr>invoked = [],
            raised = Some (PyTypeError ''got multiple values for keyword argument'')\<rparr>)"

text \<open>\<open>len(x)\<close> where \<open>isinstance(x, list)\<close>, for the result of \<open>kwargs.get\<close>.\<close>

fun list_len :: "pyval option \<Rightarrow> nat option" where
  "list_len (Some (PList xs)) = Some (length xs)"
| "list_len _ = None"

text \<open>
  \<open>CollectionLogic.get\<close>. \<open>operations.GET.value\<close> comes from the native module and is the
  parameter \<open>op_get\<close>.
\<close>

definition CollectionLogic_get ::
  "collection \<Rightarrow> pyval \<Rightarrow> pyval \<Rightarrow> pyval \<Rightarrow> pydict \<Rightarrow> fn_result" where
  "CollectionLogic_get self op_get conn key kwargs =
     (case list_len (map_of kwargs ''project'') of
        Some n \<Rightarrow>
          (if n > 16 then
             \<lparr>invoked = [],
              raised = Some (CouchbaseExc InvalidArgumentException
                 (PStr (''Maximum of 16 projects allowed. Provided '' @ str_nat n)) [])\<rparr>
           else kv_operation (get_connection_args self conn @ kwargs @
                              [(''key'', key), (''op_type'', op_get)]))
      | None \<Rightarrow>
          kv_operation (get_connection_args self conn @ kwargs @
                        [(''key'', key), (''op_type'', op_get)]))"

text \<open>\<open>get\<close> as the function the decorators wrap: \<open>fn(self, *args, **kwargs)\<close>.\<close>

definition get_fn :: "collection \<Rightarrow> pyval \<Rightarrow> op_fn" where
  "get_fn self op_get conn args kwargs =
     (case args of
        [key] \<Rightarrow> CollectionLogic_get self op_get conn key kwargs
      | _ \<Rightarrow> \<lparr>invoked = [],
              raised = Some (PyTypeError ''get() takes 2 positional arguments'')\<rparr>)"

section \<open>couchbase/logic/n1ql.py\<close>

subsection \<open>Dictionary and string primitives\<close>

text \<open>\<open>d.get(k, None)\<close>; an object that is not a dictionary has no \<open>get\<close>.\<close>

fun dict_get :: "pyval \<Rightarrow> string \<Rightarrow> py_exc + pyval" where
  "dict_get (PDict kvs) k = Inr (case map_of kvs k of None \<Rightarrow> PNone | Some v \<Rightarrow> v)"
| "dict_get _ k = Inl (PyException ''AttributeError'' ''object has no attribute get'')"

text \<open>\<open>value[:-1]\<close>: strings and lists can be sliced, nothing else in \<open>pyval\<close> can.\<close>

fun slice_to_last :: "pyval \<Rightarrow> py_exc + pyval" where
  "slice_to_last (PStr s) = Inr (PStr (butlast s))"
| "slice_to_last (PList xs) = Inr (PList (butlast xs))"
| "slice_to_last _ = Inl (PyTypeError ''object is not subscriptable'')"

text \<open>\<open>float(value)\<close>; parsing a string is the parameter \<open>parse\<close>.\<close>

fun py_float :: "(string \<Rightarrow> py_exc + rat) \<Rightarrow> pyval \<Rightarrow> py_exc + pyval" where
  "py_float parse (PStr s) = (case parse s of Inl x \<Rightarrow> Inl x | Inr r \<Rightarrow> Inr (PFloat r))"
| "py_float parse (PFloat r) = Inr (PFloat r)"
| "py_float parse (PInt i) = Inr (PFloat (of_int i))"
| "py_float parse (PBool b) = Inr (PFloat (if b then 1 else 0))"
| "py_float parse _ = Inl (PyTypeError ''float() argument must be a string or a real number'')"

text \<open>\<open>timedelta.total_seconds()\<close>.\<close>

definition total_seconds :: "int \<Rightarrow> rat" where
  "total_seconds us = of_int us / 1000000"

text \<open>\<open>str.upper()\<close> on ASCII letters.\<close>

definition upper_char :: "char \<Rightarrow> char" where
  "upper_char c =
     (let n = (of_char c :: nat) in if 97 \<le> n \<and> n \<le> 122 then char_of (n - 32) else c)"

fun py_upper :: "pyval \<Rightarrow> py_exc + string" where
  "py_upper (PStr s) = Inr (map upper_char s)"
| "py_upper _ = Inl (PyException ''AttributeError'' ''object has no attribute upper'')"

subsection \<open>Enumerations\<close>

fun QueryScanConsistency_value :: "QueryScanConsistency \<Rightarrow> string" where
  "QueryScanConsistency_value NOT_BOUNDED = ''not_bounded''"
| "QueryScanConsistency_value REQUEST_PLUS = ''request_plus''"
| "QueryScanConsistency_value AT_PLUS = ''at_plus''"

text \<open>
  Every member of \<open>QueryStatus\<close> is declared with the value \<open>()\<close>, so in Python's \<open>Enum\<close>
  the later names are aliases of the first member: looking any of the ten names up gives
  \<open>RUNNING\<close>, any other name is a \<open>KeyError\<close>.
\<close>

datatype QueryStatus = RUNNING

definition QueryStatus_names :: "string list" where
  "QueryStatus_names =
     [''RUNNING'', ''SUCCESS'', ''ERRORS'', ''COMPLETED'', ''STOPPED'', ''TIMEOUT'',
      ''CLOSED'', ''FATAL'', ''ABORTED'', ''UNKNOWN'']"

definition QueryStatus_getitem :: "string \<Rightarrow> py_exc + QueryStatus" where
  "QueryStatus_getitem name =
     (if name \<in> set QueryStatus_names then Inr RUNNING
      else Inl (PyException ''KeyError'' name))"

subsection \<open>QueryMetaData\<close>

record QueryMetaData =
  md_raw :: pyval

definition QueryMetaData_init :: "pyval \<Rightarrow> py_exc + QueryMetaData" where
  "QueryMetaData_init raw =
     (if raw \<noteq> PNone
      then (case dict_get raw ''metadata'' of
              Inl x \<Rightarrow> Inl x | Inr m \<Rightarrow> Inr \<lparr>md_raw = m\<rparr>)
      else Inr \<lparr>md_raw = PNone\<rparr>)"

definition request_id :: "QueryMetaData \<Rightarrow> py_exc + pyval" where
  "request_id md = dict_get (md_raw md) ''request_id''"

definition status :: "QueryMetaData \<Rightarrow> py_exc + QueryStatus" where
  "status md =
     (case md_raw md of
        PDict kvs \<Rightarrow>
          (case py_upper (case map_of kvs ''status'' of
                            None \<Rightarrow> PStr ''unknown'' | Some v \<Rightarrow> v) of
             Inl x \<Rightarrow> Inl x
           | Inr name \<Rightarrow> QueryStatus_getitem name)
      | _ \<Rightarrow> Inl (PyException ''AttributeError'' ''object has no attribute get''))"

subsection \<open>N1QLQuery\<close>

record N1QLQuery =
  params :: pydict
  raw :: pyval

text \<open>
  \<open>__init__\<close>, with \<open>json.dumps\<close> as the parameter \<open>dumps\<close>. Both helpers start from a
  dictionary that holds the statement only, so \<open>setdefault\<close> always stores its default.
\<close>

definition N1QLQuery_init ::
  "(pyval \<Rightarrow> string) \<Rightarrow> string \<Rightarrow> pyval list \<Rightarrow> pydict \<Rightarrow> N1QLQuery" where
  "N1QLQuery_init dumps query args kwargs =
     (let p0 = [(''statement'', PStr query)];
          p1 = (if args \<noteq> []
                then AList.update ''positional_parameters''
                       (PList (map (\<lambda>a. PStr (dumps a)) args)) p0
                else p0);
          p2 = (if kwargs \<noteq> []
                then AList.update ''named_parameters''
                       (PDict (map (\<lambda>(k, v). (CHR ''$'' # k, PStr (dumps v))) kwargs)) p1
                else p1)
      in \<lparr>params = p2, raw = PNone\<rparr>)"

definition set_option :: "N1QLQuery \<Rightarrow> string \<Rightarrow> pyval \<Rightarrow> N1QLQuery" where
  "set_option self name v = self\<lparr>params := AList.update name v (params self)\<rparr>"

text \<open>\<open>self._params.get(name, None)\<close>.\<close>

definition params_get :: "N1QLQuery \<Rightarrow> string \<Rightarrow> pyval" where
  "params_get self name = (case map_of (params self) name of None \<Rightarrow> PNone | Some v \<Rightarrow> v)"

text \<open>The \<open>timeout\<close> property: getter and setter.\<close>

definition timeout :: "(string \<Rightarrow> py_exc + rat) \<Rightarrow> N1QLQuery \<Rightarrow> py_exc + pyval" where
  "timeout parse self =
     (let v = params_get self ''timeout''
      in if \<not> truthy v then Inr PNone
         else case slice_to_last v of
                Inl x \<Rightarrow> Inl x
              | Inr v' \<Rightarrow> py_float parse v')"

fun timeout_set :: "N1QLQuery \<Rightarrow> pyval \<Rightarrow> py_exc + N1QLQuery" where
  "timeout_set self (PTimedelta us) =
     (if us = 0 then Inr (self\<lparr>params := AList.delete ''timeout'' (params self)\<rparr>)
      else Inr (set_option self ''timeout'' (PFloat (total_seconds us))))"
| "timeout_set self (PFloat r) =
     (if r = 0 then Inr (self\<lparr>params := AList.delete ''timeout'' (params self)\<rparr>)
      else Inr (set_option self ''timeout'' (PFloat r)))"
| "timeout_set self v =
     (if \<not> truthy v then Inr (self\<lparr>params := AList.delete ''timeout'' (params self)\<rparr>)
      else Inl (CouchbaseExc InvalidArgumentException
                  (PStr ''Excepted timeout to be a timedelta | float'') []))"

text \<open>The \<open>consistency\<close> property: getter and setter.\<close>

definition consistency :: "N1QLQuery \<Rightarrow> pyval" where
  "consistency self =
     (let v = params_get self ''scan_consistency''
      in if v = PNone \<and> ''mutation_state'' \<in> fst ` set (params self)
         then PScanConsistency AT_PLUS
         else if v = PNone then PScanConsistency NOT_BOUNDED
         else case v of
                PStr s \<Rightarrow> (if s = ''request_plus'' then PScanConsistency REQUEST_PLUS
                           else PScanConsistency NOT_BOUNDED)
              | _ \<Rightarrow> PNone)"

definition consistency_type_error :: py_exc where
  "consistency_type_error =
     CouchbaseExc InvalidArgumentException
       (PStr (''Excepted consistency to be either of type '' @
              ''QueryScanConsistency or str representation '' @
              ''of QueryScanConsistency'')) []"

definition consistency_at_plus_error :: py_exc where
  "consistency_at_plus_error =
     CouchbaseExc InvalidArgumentException
       (PStr (''Cannot set consistency to AT_PLUS.  Use '' @
              ''consistent_with instead or set consistency '' @
              ''to NOT_BOUNDED or REQUEST_PLUS'')) []"

definition consistency_set :: "N1QLQuery \<Rightarrow> pyval \<Rightarrow> py_exc + N1QLQuery" where
  "consistency_set self v =
     (if ''mutation_state'' \<notin> fst ` set (params self) then
        (case v of
           PScanConsistency sc \<Rightarrow>
             (if sc = AT_PLUS then Inl consistency_at_plus_error
              else Inr (set_option self ''scan_consistency''
                          (PStr (QueryScanConsistency_value sc))))
         | PStr s \<Rightarrow>
             (if s \<in> set (map QueryScanConsistency_value [NOT_BOUNDED, REQUEST_PLUS, AT_PLUS])
              then (if s = QueryScanConsistency_value AT_PLUS
                    then Inl consistency_at_plus_error
                    else Inr (set_option self ''scan_consistency'' (PStr s)))
              else Inl consistency_type_error)
         | _ \<Rightarrow> Inl consistency_type_error)
      else Inr self)"

text \<open>
  The \<open>consistent_with\<close> setter. A \<open>MutationState\<close> is an object of that class holding its
  scan vectors \<open>_sv\<close>.
\<close>

fun mutation_state_sv :: "pyval \<Rightarrow> pyval list option" where
  "mutation_state_sv (PObject c (PList sv)) =
     (if c = ''MutationState'' then Some sv else None)"
| "mutation_state_sv _ = None"

definition consistent_with_set :: "N1QLQuery \<Rightarrow> pyval \<Rightarrow> py_exc + N1QLQuery" where
  "consistent_with_set self v =
     (if consistency self \<noteq> PScanConsistency NOT_BOUNDED
      then Inl (PyTypeError ''consistent_with not valid with other consistency options'')
      else case mutation_state_sv v of
             None \<Rightarrow> Inl (PyTypeError ''Passed empty or invalid state'')
           | Some sv \<Rightarrow>
               (if sv = [] then Inl (PyTypeError ''Passed empty or invalid state'')
                else Inr (set_option
                            (self\<lparr>params := AList.delete ''scan_consistency'' (params self)\<rparr>)
                            ''mutation_state'' (PList sv))))"

subsection \<open>QueryRequestLogic\<close>

text \<open>
  The fields \<open>__init__\<close> sets that the modelled methods read or write, and
  \<open>rq_submitted\<close>, the calls of the native \<open>n1ql_query\<close> made so far.
\<close>

record QueryRequestLogic =
  rq_connection :: pyval
  rq_query_params :: pydict
  rq_streaming_result :: pyval
  rq_started_streaming :: bool
  rq_done_streaming :: bool
  rq_metadata :: "QueryMetaData option"
  rq_submitted :: "native_call list"

definition QueryRequestLogic_init :: "pyval \<Rightarrow> pydict \<Rightarrow> QueryRequestLogic" where
  "QueryRequestLogic_init connection query_params =
     \<lparr>rq_connection = connection,
      rq_query_params = query_params,
      rq_streaming_result = PNone,
      rq_started_streaming = False,
      rq_done_streaming = False,
      rq_metadata = None,
      rq_submitted = []\<rparr>"

definition started_streaming :: "QueryRequestLogic \<Rightarrow> bool" where
  "started_streaming self = rq_started_streaming self"

definition done_streaming :: "QueryRequestLogic \<Rightarrow> bool" where
  "done_streaming self = rq_done_streaming self"

text \<open>\<open>metadata()\<close>: the body is the single statement \<open>return self._metadata\<close>.\<close>

definition metadata :: "QueryRequestLogic \<Rightarrow> py_exc + QueryMetaData option" where
  "metadata self = Inr (rq_metadata self)"

text \<open>
  \<open>_submit_query\<close>: \<open>kwargs = {'conn': ...}; kwargs.update(self.params)\<close>, then the native
  \<open>n1ql_query(**kwargs)\<close>, whose result is an opaque handle.
\<close>

definition dict_update :: "pydict \<Rightarrow> pydict \<Rightarrow> pydict" where
  "dict_update d other = foldl (\<lambda>acc (k, v). AList.update k v acc) d other"

definition submit_query :: "QueryRequestLogic \<Rightarrow> QueryRequestLogic" where
  "submit_query self =
     (if done_streaming self then self
      else
        (let kwargs = dict_update [(''conn'', rq_connection self)] (rq_query_params self)
         in self\<lparr>rq_started_streaming := True,
                 rq_streaming_result :=
                   PObject ''streaming_result'' (PInt (int (length (rq_submitted self)))),
                 rq_submitted := rq_submitted self @ [NativeCall ''n1ql_query'' kwargs]\<rparr>))"

text \<open>
  The engine's response: the keys of \<open>raw_result\<close> that the code reads. \<open>exc\<close> holds the
  engine's error object or \<open>None\<close>.
\<close>

record raw_result =
  rr_exc :: "native_exc option"
  rr_exc_info :: pyval
  rr_has_exception :: pyval
  rr_value :: pyval

text \<open>
  \<open>for k, v in exc_info\<close> iterates the keys of the dictionary and unpacks each key, a
  string, into two names: a key of any length but two raises \<open>ValueError\<close>.
\<close>

fun unpack_keys :: "string list \<Rightarrow> py_exc + (string \<times> string) list" where
  "unpack_keys [] = Inr []"
| "unpack_keys (key # keys) =
     (case key of
        [a, b] \<Rightarrow>
          (case unpack_keys keys of
             Inl x \<Rightarrow> Inl x
           | Inr r \<Rightarrow> Inr (([a], [b]) # r))
      | _ \<Rightarrow>
          Inl (PyValueError
                 (if length key > 2 then ''too many values to unpack (expected 2)''
                  else ''not enough values to unpack (expected 2)'')))"

definition new_exc_info :: "pydict \<Rightarrow> py_exc + pydict" where
  "new_exc_info exc_info =
     (case unpack_keys (map fst exc_info) of
        Inl x \<Rightarrow> Inl x
      | Inr kvs \<Rightarrow>
          Inr (map (\<lambda>(k, v). (k, PStr v))
                 (filter (\<lambda>(k, v). k \<in> set [''cinfo'', ''inner_cause'']) kvs)))"

text \<open>
  \<open>_handle_query_result_exc\<close> never returns: the value is the exception that leaves it.
  \<open>ErrorMapper.parse_error_context\<close> of \<open>couchbase/exceptions.py\<close> is the parameter
  \<open>parse_error_context\<close>, which may raise or return \<open>None\<close>.
\<close>

definition handle_query_result_exc ::
  "exc_env \<Rightarrow> (native_exc \<Rightarrow> py_exc + py_exc option) \<Rightarrow> raw_result \<Rightarrow> py_exc" where
  "handle_query_result_exc env parse_error_context rr =
     (let unknown = CouchbaseExc (internal_sdk_class env) (PStr ''Unknown error.'') []
      in if rr_exc rr = None \<and> truthy (rr_exc_info rr) then
           (case rr_exc_info rr of
              PDict kvs \<Rightarrow>
                (case error_map_get env
                        (case map_of kvs ''error_code'' of None \<Rightarrow> PNone | Some c \<Rightarrow> c) of
                   Inl x \<Rightarrow> x
                 | Inr exc_cls \<Rightarrow>
                     (case new_exc_info kvs of
                        Inl x \<Rightarrow> x
                      | Inr info \<Rightarrow>
                          CouchbaseExc exc_cls
                            (case map_of kvs ''message'' of
                               None \<Rightarrow> PNone | Some m \<Rightarrow> m) info))
            | _ \<Rightarrow> PyException ''AttributeError'' ''object has no attribute get'')
         else
           (case rr_exc rr of
              None \<Rightarrow> PyException ''AttributeError''
                        ''NoneType object has no attribute error_context''
            | Some base_exc \<Rightarrow>
                (if error_context base_exc \<noteq> PNone then
                   (case parse_error_context base_exc of
                      Inl x \<Rightarrow> x
                    | Inr None \<Rightarrow> unknown
                    | Inr (Some excptn) \<Rightarrow> excptn)
                 else
                   CouchbaseExc
                     (case PYCBC_ERROR_MAP env (err base_exc) of
                        None \<Rightarrow> CouchbaseException | Some c \<Rightarrow> c)
                     (PStr (strerror base_exc)) [])))"

text \<open>\<open>_set_metadata\<close>.\<close>

definition set_metadata ::
  "exc_env \<Rightarrow> (native_exc \<Rightarrow> py_exc + py_exc option) \<Rightarrow> QueryRequestLogic \<Rightarrow> raw_result
     \<Rightarrow> py_exc + QueryRequestLogic" where
  "set_metadata env parse_error_context self rr =
     (if truthy (rr_has_exception rr)
      then Inl (handle_query_result_exc env parse_error_context rr)
      else case QueryMetaData_init (rr_value rr) of
             Inl x \<Rightarrow> Inl x
           | Inr md \<Rightarrow> Inr (self\<lparr>rq_metadata := Some md\<rparr>))"

section \<open>Auxiliary definitions for the proofs\<close>

text \<open>Running one handle against the state, and the handles a trace of events queues.\<close>

definition apply_handle :: "handle \<Rightarrow> async_state \<Rightarrow> async_state" where
  "apply_handle h st =
     (case run_handle h (ft st) of
        Inl x \<Rightarrow> st\<lparr>logged := logged st @ [x]\<rparr>
      | Inr f \<Rightarrow> st\<lparr>ft := f\<rparr>)"

fun callback_handles :: "return_cls \<Rightarrow> (native_exc \<Rightarrow> py_exc) \<Rightarrow> event list \<Rightarrow> handle list" where
  "callback_handles rc build [] = []"
| "callback_handles rc build (NativeOk res # evs) =
     SetResult (retval rc res) # callback_handles rc build evs"
| "callback_handles rc build (NativeErr exc # evs) =
     SetException (build exc) # callback_handles rc build evs"
| "callback_handles rc build (LoopRun # evs) = callback_handles rc build evs"

text \<open>Concrete inputs for the examples.\<close>

definition example_env :: exc_env where
  "example_env = \<lparr>PYCBC_ERROR_MAP = [5000 \<mapsto> InternalSDKException],
                   InternalSDKException_value = 5000\<rparr>"

definition example_build :: "native_exc \<Rightarrow> py_exc" where
  "example_build exc = CouchbaseExc CouchbaseException (PStr (strerror exc)) []"

definition example_native_exc :: native_exc where
  "example_native_exc = \<lparr>err = 101, strerror = ''document_not_found'', error_context = PNone\<rparr>"

definition unconnected :: async_state where
  "unconnected =
     \<lparr>ft = Pending, ready = [], logged = [], native = [], self_connection = PNone,
      parent_connection = PNone, done_callbacks = [], connects = 0\<rparr>"

definition connected :: async_state where
  "connected =
     \<lparr>ft = Pending, ready = [], logged = [], native = [],
      self_connection = PObject ''connection'' PNone,
      parent_connection = PObject ''connection'' PNone, done_callbacks = [], connects = 0\<rparr>"

definition example_collection :: collection where
  "example_collection =
     \<lparr>bucket_name = ''default'', scope_name = ''_default'', collection_name = ''_default''\<rparr>"

definition example_error :: py_exc where
  "example_error =
     CouchbaseExc (MappedException ''UnAmbiguousTimeoutException'') (PStr ''connect timed out'') []"

definition example_transcoder :: pyval where
  "example_transcoder = PObject ''JSONTranscoder'' PNone"


definition example_request :: QueryRequestLogic where
  "example_request =
     QueryRequestLogic_init (PObject ''connection'' PNone)
       [(''statement'', PStr ''SELECT * FROM x LIMIT 1'')]"

definition example_metadata :: pydict where
  "example_metadata = [(''request_id'', PStr ''8c1b-01''), (''status'', PStr ''success'')]"

definition example_response :: raw_result where
  "example_response =
     \<lparr>rr_exc = None, rr_exc_info = PNone, rr_has_exception = PNone,
      rr_value = PDict [(''metadata'', PDict example_metadata)]\<rparr>"

definition bare_code_response :: raw_result where
  "bare_code_response =
     \<lparr>rr_exc = None,
      rr_exc_info = PDict [(''error_code'', PInt 9999), (''message'', PStr ''unknown failure'')],
      rr_has_exception = PBool True, rr_value = PNone\<rparr>"

definition missing_info_response :: raw_result where
  "missing_info_response =
     \<lparr>rr_exc = None, rr_exc_info = PNone, rr_has_exception = PBool True, rr_value = PNone\<rparr>"

definition example_query :: N1QLQuery where
  "example_query = N1QLQuery_init (\<lambda>v. []) ''SELECT 1'' [] []"

definition example_mutation_state :: pyval where
  "example_mutation_state = PList [PStr ''token'']"

definition with_mutation_state :: N1QLQuery where
  "with_mutation_state = set_option example_query ''mutation_state'' example_mutation_state"

definition both_set :: N1QLQuery where
  "both_set =
     set_option (set_option example_query ''scan_consistency'' (PStr ''request_plus''))
       ''mutation_state'' example_mutation_state"

section \<open>Exactly-once resolution of the operation's future\<close>

lemma apply_handle_ready [simp]: "ready (apply_handle h st) = ready st"
  by (simp add: apply_handle_def split: sum.splits)

lemma apply_handle_ready_update:
  "apply_handle h (st\<lparr>ready := r\<rparr>) = (apply_handle h st)\<lparr>ready := r\<rparr>"
  by (simp add: apply_handle_def split: sum.splits)

lemma run_once_Nil: "ready st = [] \<Longrightarrow> run_once st = st"
  by (simp add: run_once_def)

lemma run_once_Cons: "ready st = h # hs \<Longrightarrow> run_once st = apply_handle h (st\<lparr>ready := hs\<rparr>)"
  by (simp add: run_once_def apply_handle_def split: sum.splits)

lemma funpow_run_once:
  "ready st = hs \<Longrightarrow>
   (run_once ^^ length hs) st = foldl (\<lambda>s h. apply_handle h s) (st\<lparr>ready := []\<rparr>) hs"
proof (induction hs arbitrary: st)
  case Nil
  then show ?case by simp
next
  case (Cons h hs)
  have r: "run_once st = apply_handle h (st\<lparr>ready := hs\<rparr>)"
    using Cons.prems by (rule run_once_Cons)
  have "ready (run_once st) = hs" by (simp add: r)
  from Cons.IH [OF this]
  have "(run_once ^^ length hs) (run_once st)
          = foldl (\<lambda>s h. apply_handle h s) ((run_once st)\<lparr>ready := []\<rparr>) hs" .
  moreover have "(run_once st)\<lparr>ready := []\<rparr> = apply_handle h (st\<lparr>ready := []\<rparr>)"
    by (simp add: r apply_handle_ready_update)
  ultimately show ?case by (simp add: funpow_swap1)
qed

lemma drain_foldl:
  "drain st = foldl (\<lambda>s h. apply_handle h s) (st\<lparr>ready := []\<rparr>) (ready st)"
  unfolding drain_def by (rule funpow_run_once) simp

lemma drain_idle: "ready st = [] \<Longrightarrow> drain st = st"
  by (simp add: drain_def)

lemma drain_run_once: "drain (run_once st) = drain st"
proof (cases "ready st")
  case Nil
  then show ?thesis by (simp add: run_once_Nil)
next
  case (Cons h hs)
  then show ?thesis
    by (simp add: drain_foldl run_once_Cons apply_handle_ready_update)
qed

lemma drain_enqueue:
  "drain (st\<lparr>ready := ready st @ [h]\<rparr>) = apply_handle h (drain st)"
  by (simp add: drain_foldl)

lemma drain_step:
  "drain (step rc build st ev) =
     foldl (\<lambda>s h. apply_handle h s) (drain st) (callback_handles rc build [ev])"
  by (cases ev) (simp_all add: on_ok_def on_err_def drain_enqueue drain_run_once)

lemma callback_handles_append:
  "callback_handles rc build (xs @ ys) = callback_handles rc build xs @ callback_handles rc build ys"
  by (induction xs rule: callback_handles.induct) simp_all

lemma length_callback_handles:
  "length (callback_handles rc build evs) = length (filter (\<lambda>ev. ev \<noteq> LoopRun) evs)"
  by (induction evs rule: callback_handles.induct) simp_all

text \<open>
  Draining the loop after any trace gives what running the queued handles in the order of
  their callbacks gives: where the loop's turns fall in the trace does not matter.
\<close>

lemma drain_run_events:
  "drain (run_events rc build evs st) =
     foldl (\<lambda>s h. apply_handle h s) (drain st) (callback_handles rc build evs)"
proof (induction evs rule: rev_induct)
  case Nil
  then show ?case by (simp add: run_events_def)
next
  case (snoc ev evs)
  have "run_events rc build (evs @ [ev]) st = step rc build (run_events rc build evs st) ev"
    by (simp add: run_events_def)
  then show ?case
    by (simp add: drain_step snoc.IH callback_handles_append)
qed

text \<open>On a future that is done, every further handle only adds an \<open>InvalidStateError\<close> to the log.\<close>

lemma apply_handles_done:
  "ft st \<noteq> Pending \<Longrightarrow>
   foldl (\<lambda>s h. apply_handle h s) st hs
     = st\<lparr>logged := logged st @ replicate (length hs) InvalidStateError\<rparr>"
proof (induction hs arbitrary: st)
  case Nil
  then show ?case by simp
next
  case (Cons h hs)
  have a: "apply_handle h st = st\<lparr>logged := logged st @ [InvalidStateError]\<rparr>"
    using Cons.prems
    by (cases h) (simp_all add: apply_handle_def set_result_def set_exception_def)
  have "ft (apply_handle h st) \<noteq> Pending" using Cons.prems by (simp add: a)
  from Cons.IH [OF this] show ?case
    by (simp add: a replicate_app_Cons_same)
qed

lemma first_callback_wins:
  assumes "ft st = Pending" "ready st = []"
    and "callback_handles rc build [ev] = [h]"
    and "run_handle h Pending = Inr f" "f \<noteq> Pending"
  shows "drain (run_events rc build (ev # evs) st)
           = st\<lparr>ft := f,
                 logged := logged st @
                   replicate (length (filter (\<lambda>ev. ev \<noteq> LoopRun) evs)) InvalidStateError\<rparr>"
proof -
  have split: "callback_handles rc build (ev # evs) = h # callback_handles rc build evs"
    using callback_handles_append [of rc build "[ev]" evs] assms(3) by simp
  have first: "apply_handle h st = st\<lparr>ft := f\<rparr>"
    using assms(1,4) by (simp add: apply_handle_def)
  have "drain (run_events rc build (ev # evs) st)
          = foldl (\<lambda>s h. apply_handle h s) (st\<lparr>ft := f\<rparr>) (callback_handles rc build evs)"
    by (simp add: drain_run_events drain_idle assms(2) split first)
  also have "\<dots> = (st\<lparr>ft := f\<rparr>)\<lparr>logged := logged (st\<lparr>ft := f\<rparr>) @
                   replicate (length (callback_handles rc build evs)) InvalidStateError\<rparr>"
    by (rule apply_handles_done) (simp add: assms(5))
  finally show ?thesis by (simp add: length_callback_handles)
qed

text \<open>
  C1. An operation's future starts pending with nothing queued for it. Whatever the engine
  and the loop then do, in any order (the engine calling \<open>on_ok\<close> or \<open>on_err\<close> any number of
  times, the loop running handles in between), once the loop has run every queued handle
  the future holds what the first callback asked for: the result for \<open>on_ok\<close>, the mapped
  exception for \<open>on_err\<close>. Each later callback changes nothing in the future; its handle
  raises \<open>InvalidStateError\<close> inside the loop, which hands it to its exception handler, so
  the log grows by exactly one entry per extra callback and nothing else changes.
\<close>

theorem exactly_once_resolution:
  "drain (run_events rc build (NativeOk res # evs) (st\<lparr>ft := Pending, ready := []\<rparr>))
     = st\<lparr>ft := Finished (retval rc res), ready := [],
           logged := logged st @
             replicate (length (filter (\<lambda>ev. ev \<noteq> LoopRun) evs)) InvalidStateError\<rparr>
   \<and> drain (run_events rc build (NativeErr exc # evs) (st\<lparr>ft := Pending, ready := []\<rparr>))
     = st\<lparr>ft := Failed (build exc), ready := [],
           logged := logged st @
             replicate (length (filter (\<lambda>ev. ev \<noteq> LoopRun) evs)) InvalidStateError\<rparr>"
proof
  show "drain (run_events rc build (NativeOk res # evs) (st\<lparr>ft := Pending, ready := []\<rparr>))
     = st\<lparr>ft := Finished (retval rc res), ready := [],
           logged := logged st @
             replicate (length (filter (\<lambda>ev. ev \<noteq> LoopRun) evs)) InvalidStateError\<rparr>"
    by (subst first_callback_wins [where h = "SetResult (retval rc res)"
          and f = "Finished (retval rc res)"]) (simp_all add: set_result_def)
  show "drain (run_events rc build (NativeErr exc # evs) (st\<lparr>ft := Pending, ready := []\<rparr>))
     = st\<lparr>ft := Failed (build exc), ready := [],
           logged := logged st @
             replicate (length (filter (\<lambda>ev. ev \<noteq> LoopRun) evs)) InvalidStateError\<rparr>"
    by (subst first_callback_wins [where h = "SetException (build exc)"
          and f = "Failed (build exc)"]) (simp_all add: set_exception_def)
qed

text \<open>
  The success callback fires twice and the failure callback once more, with the loop running
  in between: the future keeps the first result and the loop logs two errors.
\<close>

theorem exactly_once_resolution_witness:
  "drain (run_events (RcClass ''GetResult'') example_build
            [NativeOk (PStr ''v1''), LoopRun, NativeOk (PStr ''v2''),
             NativeErr example_native_exc, LoopRun] unconnected)
     = unconnected\<lparr>ft := Finished (PObject ''GetResult'' (PStr ''v1'')),
                    logged := [InvalidStateError, InvalidStateError]\<rparr>"
  using exactly_once_resolution [of "RcClass ''GetResult''" example_build "PStr ''v1''"
      "[LoopRun, NativeOk (PStr ''v2''), NativeErr example_native_exc, LoopRun]" unconnected]
  by (simp add: unconnected_def)

section \<open>Operations on a node without a connection\<close>

text \<open>
  C5. A cluster-level operation wrapped without connect chaining, and a management
  operation, issued while the node's connection is unset: the wrapper returns the future
  failed with \<open>MissingConnectionException\<close>, and nothing else in the state changes; in
  particular no call reaches the engine and no connect is requested.
\<close>

theorem missing_connection_no_native_call:
  assumes "\<not> truthy (self_connection st)"
  shows "inject_cluster_callbacks env False fn st args kwargs =
           Inr (st\<lparr>ft := Failed (CouchbaseExc MissingConnectionException
                                   (PStr ''Not connected.  Cannot perform operation.'') [])\<rparr>)
       \<and> mgmt_inject_callbacks env fn st args kwargs =
           Inr (st\<lparr>ft := Failed (CouchbaseExc MissingConnectionException
                  (PStr ''Not connected.  Cannot perform bucket management operation.'') [])\<rparr>)"
  using assms
  by (simp add: inject_cluster_callbacks_def mgmt_inject_callbacks_def set_exception_def Let_def)

theorem missing_connection_no_native_call_witness:
  "\<not> truthy (self_connection unconnected)
   \<and> inject_cluster_callbacks example_env False (get_fn example_collection (PInt 0))
        unconnected [PStr ''k1''] [] =
       Inr (unconnected\<lparr>ft := Failed (CouchbaseExc MissingConnectionException
                                   (PStr ''Not connected.  Cannot perform operation.'') [])\<rparr>)
   \<and> native (unconnected\<lparr>ft := Failed (CouchbaseExc MissingConnectionException
                                   (PStr ''Not connected.  Cannot perform operation.'') [])\<rparr>) = []"
proof -
  have h: "\<not> truthy (self_connection unconnected)" by (simp add: unconnected_def)
  from missing_connection_no_native_call [OF h, of example_env
      "get_fn example_collection (PInt 0)" "[PStr ''k1'']" "[]"]
  show ?thesis using h by (simp add: unconnected_def)
qed

section \<open>Operations chained behind a connect step\<close>

lemma chain_futures_only_on_success:
  "chain_futures env st fn cft sc kw = Inr st' \<Longrightarrow> native st' \<noteq> native st
     \<Longrightarrow> \<exists>v. cft = Finished v"
  by (cases cft)
     (auto simp: chain_futures_def cancelled_def cancel_def set_exception_def
           split: if_splits sum.splits)

lemma chain_connect_futures_only_on_success:
  "chain_connect_futures env st fn cft kw = Inr st' \<Longrightarrow> native st' \<noteq> native st
     \<Longrightarrow> \<exists>v. cft = Finished v"
  by (cases cft)
     (auto simp: chain_connect_futures_def cancelled_def cancel_def set_exception_def
           split: if_splits sum.splits)

lemma delete_update_args: "AList.delete k (AList.update k v kw) = AList.delete k kw"
  by (simp add: delete_update_same)

lemma map_of_update_args: "map_of (AList.update k v kw) k = Some v"
  by (simp add: update_conv')

text \<open>
  With no connection, each chaining wrapper returns the future pending, asks for one connect
  and registers its done-callback with the operation's positional arguments under
  \<open>"args"\<close>.
\<close>

lemma wrappers_register_pending:
  assumes "\<not> truthy (self_connection st)"
  shows "inject_callbacks env fn st args kw =
           Inr (st\<lparr>ft := Pending, connects := Suc (connects st),
                  done_callbacks := done_callbacks st @
                    [ChainFutures True (AList.update ''args'' (PList args) (with_callbacks kw))]\<rparr>)"
    and "inject_cluster_callbacks env True fn st args kw =
           Inr (st\<lparr>ft := Pending, connects := Suc (connects st),
                  done_callbacks := done_callbacks st @
                    [ChainFutures False (AList.update ''args'' (PList args) (with_callbacks kw))]\<rparr>)"
    and "inject_bucket_open_callbacks env fn st args kw =
           Inr (st\<lparr>ft := Pending, connects := Suc (connects st),
                  done_callbacks := done_callbacks st @
                    [ChainConnectFutures (AList.update ''args'' (PList args) (with_callbacks kw))]\<rparr>)"
  using assms
  by (simp_all add: inject_callbacks_def inject_cluster_callbacks_def
      inject_bucket_open_callbacks_def Let_def AsyncWrapper_getattr_def AsyncWrapper_attrs_def)

text \<open>
  C2. The done-callback of a chained operation, run on the operation's pending future
  once the connect future is done. A connect future that failed with \<open>E\<close> fails the
  operation's future with the same \<open>E\<close> and changes nothing else, so no call reaches the
  engine; a cancelled connect future cancels the operation's future, again with nothing
  else changed. Whenever the callback returns with a new engine call made, the connect
  future had finished with a result. On a connect future that finished with a result the
  callback is exactly \<open>call_async_fn\<close> on the wrapped function with the positional
  arguments stored under \<open>"args"\<close> and the remaining keyword arguments. The same holds for
  \<open>chain_connect_futures\<close>.
\<close>

theorem chained_connect_propagation:
  assumes "ft st = Pending"
  shows
   "chain_futures env st fn (Failed E) sc kw = Inr (st\<lparr>ft := Failed E\<rparr>)
  \<and> chain_futures env st fn Cancelled sc kw = Inr (st\<lparr>ft := Cancelled\<rparr>)
  \<and> chain_connect_futures env st fn (Failed E) kw = Inr (st\<lparr>ft := Failed E\<rparr>)
  \<and> chain_connect_futures env st fn Cancelled kw = Inr (st\<lparr>ft := Cancelled\<rparr>)
  \<and> (\<forall>cft st'. chain_futures env st fn cft sc kw = Inr st' \<and> native st' \<noteq> native st
         \<longrightarrow> (\<exists>v. cft = Finished v))
  \<and> (\<forall>cft st'. chain_connect_futures env st fn cft kw = Inr st' \<and> native st' \<noteq> native st
         \<longrightarrow> (\<exists>v. cft = Finished v))
  \<and> chain_futures env st fn (Finished v) sc (AList.update ''args'' (PList args) kw)
       = call_async_fn env (if sc then st\<lparr>self_connection := parent_connection st\<rparr> else st)
           fn args (AList.delete ''args'' kw)
  \<and> chain_connect_futures env st fn (Finished v) (AList.update ''args'' (PList args) kw)
       = call_async_fn env (st\<lparr>self_connection := parent_connection st\<rparr>)
           fn args (AList.delete ''args'' kw)"
proof -
  have 1: "chain_futures env st fn (Failed E) sc kw = Inr (st\<lparr>ft := Failed E\<rparr>)"
    using assms by (simp add: chain_futures_def cancelled_def set_exception_def)
  have 2: "chain_futures env st fn Cancelled sc kw = Inr (st\<lparr>ft := Cancelled\<rparr>)"
    using assms by (simp add: chain_futures_def cancelled_def cancel_def)
  have 3: "chain_connect_futures env st fn (Failed E) kw = Inr (st\<lparr>ft := Failed E\<rparr>)"
    using assms by (simp add: chain_connect_futures_def cancelled_def set_exception_def)
  have 4: "chain_connect_futures env st fn Cancelled kw = Inr (st\<lparr>ft := Cancelled\<rparr>)"
    using assms by (simp add: chain_connect_futures_def cancelled_def cancel_def)
  have 5: "\<forall>cft st'. chain_futures env st fn cft sc kw = Inr st' \<and> native st' \<noteq> native st
         \<longrightarrow> (\<exists>v. cft = Finished v)"
    using chain_futures_only_on_success by blast
  have 6: "\<forall>cft st'. chain_connect_futures env st fn cft kw = Inr st' \<and> native st' \<noteq> native st
         \<longrightarrow> (\<exists>v. cft = Finished v)"
    using chain_connect_futures_only_on_success by blast
  have 7: "chain_futures env st fn (Finished v) sc (AList.update ''args'' (PList args) kw)
       = call_async_fn env (if sc then st\<lparr>self_connection := parent_connection st\<rparr> else st)
           fn args (AList.delete ''args'' kw)"
    by (simp add: chain_futures_def cancelled_def map_of_update_args delete_update_args)
  have 8: "chain_connect_futures env st fn (Finished v) (AList.update ''args'' (PList args) kw)
       = call_async_fn env (st\<lparr>self_connection := parent_connection st\<rparr>)
           fn args (AList.delete ''args'' kw)"
    by (simp add: chain_connect_futures_def cancelled_def map_of_update_args delete_update_args)
  from 1 2 3 4 5 6 7 8 show ?thesis by blast
qed

text \<open>
  A \<open>get\<close> chained behind a bucket connect: the failed and the cancelled connect leave the
  engine untouched, the successful one sets the connection and makes the one engine call.
\<close>

theorem chained_connect_propagation_witness:
  "ft unconnected = Pending
   \<and> chain_futures example_env unconnected (get_fn example_collection (PInt 0))
       (Failed example_error) True [(''args'', PList [PStr ''k1''])]
       = Inr (unconnected\<lparr>ft := Failed example_error\<rparr>)
   \<and> chain_futures example_env unconnected (get_fn example_collection (PInt 0))
       Cancelled True [(''args'', PList [PStr ''k1''])]
       = Inr (unconnected\<lparr>ft := Cancelled\<rparr>)
   \<and> native (unconnected\<lparr>ft := Failed example_error\<rparr>) = []
   \<and> chain_futures example_env (unconnected\<lparr>parent_connection := PObject ''connection'' PNone\<rparr>)
       (get_fn example_collection (PInt 0)) (Finished (PBool True)) True
       [(''args'', PList [PStr ''k1''])]
       = Inr (unconnected\<lparr>parent_connection := PObject ''connection'' PNone,
                self_connection := PObject ''connection'' PNone,
                native := [NativeCall ''kv_operation''
                  [(''conn'', PObject ''connection'' PNone), (''bucket'', PStr ''default''),
                   (''scope'', PStr ''_default''), (''collection_name'', PStr ''_default''),
                   (''key'', PStr ''k1''), (''op_type'', PInt 0)]]\<rparr>)"
proof -
  have h: "ft unconnected = Pending" by (simp add: unconnected_def)
  have s: "chain_futures example_env (unconnected\<lparr>parent_connection := PObject ''connection'' PNone\<rparr>)
       (get_fn example_collection (PInt 0)) (Finished (PBool True)) True
       [(''args'', PList [PStr ''k1''])]
       = Inr (unconnected\<lparr>parent_connection := PObject ''connection'' PNone,
                self_connection := PObject ''connection'' PNone,
                native := [NativeCall ''kv_operation''
                  [(''conn'', PObject ''connection'' PNone), (''bucket'', PStr ''default''),
                   (''scope'', PStr ''_default''), (''collection_name'', PStr ''_default''),
                   (''key'', PStr ''k1''), (''op_type'', PInt 0)]]\<rparr>)"
    by (simp add: chain_futures_def cancelled_def unconnected_def call_async_fn_def get_fn_def
        CollectionLogic_get_def kv_operation_def get_connection_args_def
        example_collection_def Let_def)
  from chained_connect_propagation [OF h, of example_env "get_fn example_collection (PInt 0)"
      example_error True "[(''args'', PList [PStr ''k1''])]"]
  show ?thesis using h s by (simp add: unconnected_def)
qed

section \<open>Decoded reads on a collection without a connection\<close>

lemma decode_wrapper_raises:
  assumes "\<not> truthy (self_connection st)" "map_of kwargs ''transcoder'' = Some t"
  shows "inject_callbacks_and_decode env fn st args kwargs =
           Inl (PyException ''AttributeError''
                  ''type object AsyncWrapper has no attribute _chain_futures'')"
  using assms
  by (simp add: inject_callbacks_and_decode_def Let_def AsyncWrapper_getattr_def
      AsyncWrapper_attrs_def)

text \<open>
  C6 claims that a collection-level operation issued with the connection unset, decoded
  reads such as \<open>get\<close> included, chains a bucket connect and returns a future, with no
  synchronous error. On the code: \<open>get\<close> on an unconnected collection through
  \<open>inject_callbacks_and_decode\<close> raises \<open>AttributeError\<close> out of the wrapper, because the
  class has no attribute \<open>_chain_futures\<close>; the same call through \<open>inject_callbacks\<close>,
  which names \<open>chain_futures\<close>, returns the pending future with the connect requested and
  the done-callback registered.
\<close>

theorem get_without_connection_raises:
  "inject_callbacks_and_decode env (get_fn example_collection op_get) unconnected
      [PStr ''k1''] [(''transcoder'', example_transcoder)]
     = Inl (PyException ''AttributeError''
              ''type object AsyncWrapper has no attribute _chain_futures'')
   \<and> inject_callbacks env (get_fn example_collection op_get) unconnected [PStr ''k1''] []
     = Inr (unconnected\<lparr>connects := 1,
              done_callbacks := [ChainFutures True
                [(''callback'', PCallable ''on_ok''), (''errback'', PCallable ''on_err''),
                 (''args'', PList [PStr ''k1''])]]\<rparr>)"
  by (simp add: inject_callbacks_and_decode_def inject_callbacks_def Let_def
      AsyncWrapper_getattr_def AsyncWrapper_attrs_def unconnected_def with_callbacks_def)

section \<open>Where an argument-validation error surfaces\<close>



text \<open>
  \<open>call_async_fn\<close> stores an SDK exception, a \<open>TypeError\<close> or a \<open>ValueError\<close> raised by the
  wrapped function in the pending future and returns normally.
\<close>

lemma call_async_fn_stores:
  assumes "ft st = Pending" "raised (fn (self_connection st) args kw) = Some e"
    and "e = CouchbaseExc c m i \<or> e = PyTypeError s \<or> e = PyValueError s"
  shows "call_async_fn env st fn args kw =
           Inr (st\<lparr>native := native st @ invoked (fn (self_connection st) args kw),
                   ft := Failed e\<rparr>)"
  using assms by (auto simp: call_async_fn_def Let_def set_exception_def)




section \<open>Streaming query requests\<close>

text \<open>
  \<open>_submit_query\<close> tests \<open>done_streaming\<close> only: on a request that is not done it makes one
  more engine call, whether or not the request was started before.
\<close>

lemma submit_query_not_done:
  "\<not> done_streaming self \<Longrightarrow>
   rq_submitted (submit_query self) =
     rq_submitted self @
       [NativeCall ''n1ql_query''
          (dict_update [(''conn'', rq_connection self)] (rq_query_params self))]"
  by (simp add: submit_query_def Let_def)

text \<open>Before the stream is done, every trigger makes one more engine call.\<close>

lemma submit_query_keeps_done: "done_streaming (submit_query self) = done_streaming self"
  by (simp add: submit_query_def done_streaming_def Let_def)

lemma funpow_submit_query_count:
  "\<not> done_streaming self \<Longrightarrow>
   \<not> done_streaming ((submit_query ^^ n) self)
   \<and> length (rq_submitted ((submit_query ^^ n) self)) = length (rq_submitted self) + n"
  by (induction n) (simp_all add: submit_query_keeps_done submit_query_not_done)

text \<open>
  C4 as stated fails: a request that was submitted and is not done submits again on a
  second \<open>_submit_query\<close>, so the engine receives the query twice.
\<close>

theorem second_trigger_resubmits_counterexample:
  "done_streaming (submit_query example_request) = False
   \<and> rq_submitted (submit_query (submit_query example_request))
       = [NativeCall ''n1ql_query''
            [(''conn'', PObject ''connection'' PNone),
             (''statement'', PStr ''SELECT * FROM x LIMIT 1'')],
          NativeCall ''n1ql_query''
            [(''conn'', PObject ''connection'' PNone),
             (''statement'', PStr ''SELECT * FROM x LIMIT 1'')]]"
  by (simp add: example_request_def dict_update_def submit_query_def done_streaming_def
      QueryRequestLogic_init_def)

text \<open>
  C4, amended. Constructing a request makes no engine call and leaves \<open>started_streaming\<close>
  false. \<open>_submit_query\<close> submits the native query on every call made while the stream is
  not done: the first call on a constructed request sets \<open>started_streaming\<close> and makes
  exactly one call of \<open>n1ql_query\<close>, with the connection and the query parameters, and
  \<open>n\<close> calls in a row make \<open>n\<close> engine calls, since the method does not test
  \<open>started_streaming\<close>. On a request whose stream is done \<open>_submit_query\<close> changes nothing,
  so it makes no engine call.
\<close>

theorem submission_per_trigger:
  "started_streaming (QueryRequestLogic_init conn ps) = False
   \<and> rq_submitted (QueryRequestLogic_init conn ps) = []
   \<and> started_streaming (submit_query (QueryRequestLogic_init conn ps)) = True
   \<and> rq_submitted (submit_query (QueryRequestLogic_init conn ps))
       = [NativeCall ''n1ql_query'' (dict_update [(''conn'', conn)] ps)]
   \<and> length (rq_submitted ((submit_query ^^ n) (QueryRequestLogic_init conn ps))) = n
   \<and> (\<not> done_streaming self \<longrightarrow>
        started_streaming (submit_query self) = True
        \<and> rq_submitted (submit_query self) =
            rq_submitted self @
              [NativeCall ''n1ql_query''
                 (dict_update [(''conn'', rq_connection self)] (rq_query_params self))])
   \<and> (done_streaming self \<longrightarrow> submit_query self = self)"
proof -
  have fresh: "\<not> done_streaming (QueryRequestLogic_init conn ps)"
    by (simp add: QueryRequestLogic_init_def done_streaming_def)
  have n: "length (rq_submitted ((submit_query ^^ n) (QueryRequestLogic_init conn ps))) = n"
    using funpow_submit_query_count [OF fresh, of n] by (simp add: QueryRequestLogic_init_def)
  have rest: "started_streaming (QueryRequestLogic_init conn ps) = False
   \<and> rq_submitted (QueryRequestLogic_init conn ps) = []
   \<and> started_streaming (submit_query (QueryRequestLogic_init conn ps)) = True
   \<and> rq_submitted (submit_query (QueryRequestLogic_init conn ps))
       = [NativeCall ''n1ql_query'' (dict_update [(''conn'', conn)] ps)]"
    by (simp add: QueryRequestLogic_init_def submit_query_def started_streaming_def
      done_streaming_def Let_def)
  have nd: "\<not> done_streaming self \<longrightarrow>
        started_streaming (submit_query self) = True
        \<and> rq_submitted (submit_query self) =
            rq_submitted self @
              [NativeCall ''n1ql_query''
                 (dict_update [(''conn'', rq_connection self)] (rq_query_params self))]"
    by (simp add: submit_query_def started_streaming_def Let_def)
  have d: "done_streaming self \<longrightarrow> submit_query self = self"
    by (simp add: submit_query_def)
  from rest n nd d show ?thesis by blast
qed

text \<open>
  A request submitted once: while it is not done a further \<open>_submit_query\<close> adds a second
  engine call; once it is marked done a further \<open>_submit_query\<close> leaves it as it is, with
  the one engine call of the first submission.
\<close>

theorem submission_per_trigger_witness:
  "\<not> done_streaming (submit_query example_request)
   \<and> rq_submitted (submit_query (submit_query example_request))
       = rq_submitted (submit_query example_request) @
           [NativeCall ''n1ql_query''
              [(''conn'', PObject ''connection'' PNone),
               (''statement'', PStr ''SELECT * FROM x LIMIT 1'')]]
   \<and> done_streaming (submit_query example_request\<lparr>rq_done_streaming := True\<rparr>)
   \<and> submit_query (submit_query example_request\<lparr>rq_done_streaming := True\<rparr>)
       = submit_query example_request\<lparr>rq_done_streaming := True\<rparr>
   \<and> rq_submitted (submit_query example_request\<lparr>rq_done_streaming := True\<rparr>)
       = [NativeCall ''n1ql_query''
            [(''conn'', PObject ''connection'' PNone),
             (''statement'', PStr ''SELECT * FROM x LIMIT 1'')]]"
proof -
  have h1: "\<not> done_streaming (submit_query example_request)"
    by (simp add: example_request_def submit_query_def done_streaming_def
        QueryRequestLogic_init_def)
  have h2: "done_streaming (submit_query example_request\<lparr>rq_done_streaming := True\<rparr>)"
    by (simp add: done_streaming_def)
  have p: "dict_update [(''conn'', rq_connection (submit_query example_request))]
             (rq_query_params (submit_query example_request))
           = [(''conn'', PObject ''connection'' PNone),
              (''statement'', PStr ''SELECT * FROM x LIMIT 1'')]"
    by (simp add: example_request_def dict_update_def submit_query_def done_streaming_def
        QueryRequestLogic_init_def)
  have s: "rq_submitted (submit_query example_request\<lparr>rq_done_streaming := True\<rparr>)
       = [NativeCall ''n1ql_query''
            [(''conn'', PObject ''connection'' PNone),
             (''statement'', PStr ''SELECT * FROM x LIMIT 1'')]]"
    by (simp add: example_request_def dict_update_def submit_query_def done_streaming_def
        QueryRequestLogic_init_def)
  from submission_per_trigger [of "PObject ''connection'' PNone"
      "[(''statement'', PStr ''SELECT * FROM x LIMIT 1'')]" 2 "submit_query example_request"]
    submission_per_trigger [of "PObject ''connection'' PNone"
      "[(''statement'', PStr ''SELECT * FROM x LIMIT 1'')]" 2
      "submit_query example_request\<lparr>rq_done_streaming := True\<rparr>"]
    h1 h2 p s
  show ?thesis by simp
qed

text \<open>
  C3 as stated fails: on a request that has been submitted and is not done, \<open>metadata()\<close>
  raises nothing and returns \<open>None\<close>.
\<close>

theorem metadata_before_done_counterexample:
  "done_streaming (submit_query example_request) = False
   \<and> metadata (submit_query example_request) = Inr None"
  by (simp add: example_request_def metadata_def submit_query_def done_streaming_def
      QueryRequestLogic_init_def)

lemma submit_query_metadata: "rq_metadata (submit_query self) = rq_metadata self"
  by (simp add: submit_query_def Let_def)

lemma funpow_submit_query_metadata: "rq_metadata ((submit_query ^^ n) self) = rq_metadata self"
  by (induction n) (simp_all add: submit_query_metadata)

text \<open>
  C3, amended. \<open>metadata()\<close> returns the stored record and never raises: on a constructed
  request, after any number of submissions and before \<open>_set_metadata\<close> has run, it returns
  \<open>None\<close>. Once \<open>_set_metadata\<close> has taken an engine response that flags no exception and
  whose value holds a \<open>metadata\<close> dictionary with a non-null \<open>request_id\<close> and a \<open>status\<close>
  that names a member of \<open>QueryStatus\<close>, \<open>metadata()\<close> returns the record of that
  dictionary, and its \<open>request_id()\<close> and \<open>status()\<close> are not null.
\<close>

theorem metadata_returns_stored:
  assumes "\<not> truthy (rr_has_exception rr)" and "rr_value rr = PDict v"
    and "map_of v ''metadata'' = Some (PDict m)"
    and "map_of m ''request_id'' = Some rid" and "rid \<noteq> PNone"
    and "map_of m ''status'' = Some (PStr s)" and "map upper_char s \<in> set QueryStatus_names"
  shows "metadata ((submit_query ^^ n) (QueryRequestLogic_init conn ps)) = Inr None
   \<and> set_metadata env parse self rr = Inr (self\<lparr>rq_metadata := Some \<lparr>md_raw = PDict m\<rparr>\<rparr>)
   \<and> metadata (self\<lparr>rq_metadata := Some \<lparr>md_raw = PDict m\<rparr>\<rparr>) = Inr (Some \<lparr>md_raw = PDict m\<rparr>)
   \<and> request_id \<lparr>md_raw = PDict m\<rparr> = Inr rid
   \<and> status \<lparr>md_raw = PDict m\<rparr> = Inr RUNNING"
  using assms
  by (simp add: metadata_def funpow_submit_query_metadata QueryRequestLogic_init_def
      set_metadata_def QueryMetaData_init_def request_id_def status_def QueryStatus_getitem_def)

lemma upper_success: "map upper_char ''success'' = ''SUCCESS''"
  by code_simp

theorem metadata_returns_stored_witness:
  "metadata (submit_query example_request) = Inr None
   \<and> set_metadata example_env (\<lambda>e. Inr None) (submit_query example_request) example_response
     = Inr (submit_query example_request\<lparr>rq_metadata := Some \<lparr>md_raw = PDict example_metadata\<rparr>\<rparr>)
   \<and> request_id \<lparr>md_raw = PDict example_metadata\<rparr> = Inr (PStr ''8c1b-01'')
   \<and> status \<lparr>md_raw = PDict example_metadata\<rparr> = Inr RUNNING"
proof -
  have h1: "\<not> truthy (rr_has_exception example_response)"
    by (simp add: example_response_def)
  have h2: "rr_value example_response = PDict [(''metadata'', PDict example_metadata)]"
    by (simp add: example_response_def)
  have h3: "map_of [(''metadata'', PDict example_metadata)] ''metadata''
              = Some (PDict example_metadata)"
    by simp
  have h4: "map_of example_metadata ''request_id'' = Some (PStr ''8c1b-01'')"
    by (simp add: example_metadata_def)
  have h5: "PStr ''8c1b-01'' \<noteq> PNone" by simp
  have h6: "map_of example_metadata ''status'' = Some (PStr ''success'')"
    by (simp add: example_metadata_def)
  have h7: "map upper_char ''success'' \<in> set QueryStatus_names"
    unfolding upper_success by (simp add: QueryStatus_names_def)
  from metadata_returns_stored [OF h1 h2 h3 h4 h5 h6 h7, of 1 "PObject ''connection'' PNone"
      "[(''statement'', PStr ''SELECT * FROM x LIMIT 1'')]" example_env "\<lambda>e. Inr None"
      "submit_query example_request"]
  show ?thesis by (simp add: example_request_def)
qed

section \<open>Mapping the error of a query response\<close>

text \<open>A key whose length is not two stops the comprehension with a \<open>ValueError\<close>.\<close>

lemma unpack_keys_bad:
  "\<exists>k \<in> set keys. length k \<noteq> 2 \<Longrightarrow> \<exists>m. unpack_keys keys = Inl (PyValueError m)"
proof (induction keys)
  case Nil
  then show ?case by simp
next
  case (Cons key keys)
  show ?case
  proof (cases "length key = 2")
    case True
    then obtain a b where "key = [a, b]"
      by (cases key; cases "tl key"; cases "tl (tl key)") auto
    moreover from True Cons.prems have "\<exists>k \<in> set keys. length k \<noteq> 2" by auto
    from Cons.IH [OF this] obtain m where "unpack_keys keys = Inl (PyValueError m)" by blast
    ultimately show ?thesis by simp
  next
    case False
    then show ?thesis
      by (cases key; cases "tl key"; cases "tl (tl key)") auto
  qed
qed

text \<open>
  With no error object and an \<open>exc_info\<close> dictionary that has any key not two characters
  long, what leaves \<open>_handle_query_result_exc\<close> is a \<open>ValueError\<close> or a \<open>TypeError\<close>, for
  every error map.
\<close>

lemma bare_code_never_typed:
  assumes "rr_exc rr = None" "rr_exc_info rr = PDict kvs"
    and "\<exists>k \<in> set (map fst kvs). length k \<noteq> 2"
  shows "\<exists>m. handle_query_result_exc env parse rr = PyValueError m
           \<or> handle_query_result_exc env parse rr = PyTypeError m"
proof -
  from assms(3) have ne: "kvs \<noteq> []" by auto
  from unpack_keys_bad [OF assms(3)]
  obtain m where m: "unpack_keys (map fst kvs) = Inl (PyValueError m)"
    by blast
  show ?thesis
  proof (cases "error_map_get env
                  (case map_of kvs ''error_code'' of None \<Rightarrow> PNone | Some c \<Rightarrow> c)")
    case (Inl x)
    then obtain t where "x = PyTypeError t"
      by (cases "case map_of kvs ''error_code'' of None \<Rightarrow> PNone | Some c \<Rightarrow> c") auto
    with Inl show ?thesis using assms(1,2) ne
      by (simp add: handle_query_result_exc_def Let_def)
  next
    case (Inr c)
    then show ?thesis using assms(1,2) ne m
      by (simp add: handle_query_result_exc_def Let_def new_exc_info_def)
  qed
qed

text \<open>
  C7 claims that mapping a raw error never raises an exception of its own and always
  yields one typed exception. On the code: for a response that carries no error object and
  the bare code 9999 with a message in \<open>exc_info\<close>, \<open>_handle_query_result_exc\<close> raises
  \<open>ValueError\<close> from the comprehension over \<open>exc_info\<close>, and \<open>_set_metadata\<close> lets it
  through; for a response with neither an error object nor \<open>exc_info\<close> it raises
  \<open>AttributeError\<close>. Neither is an SDK exception, whatever the error map holds.
\<close>

theorem error_mapping_raises_secondary:
  "handle_query_result_exc env parse bare_code_response
     = PyValueError ''too many values to unpack (expected 2)''
   \<and> set_metadata env parse self bare_code_response
     = Inl (PyValueError ''too many values to unpack (expected 2)'')
   \<and> handle_query_result_exc env parse missing_info_response
     = PyException ''AttributeError'' ''NoneType object has no attribute error_context''"
  by (simp add: handle_query_result_exc_def set_metadata_def bare_code_response_def
      missing_info_response_def new_exc_info_def Let_def)

section \<open>Scan consistency and mutation state\<close>

text \<open>
  C9 as stated fails on a query that holds both parameters: after \<open>consistency\<close> was set to
  \<open>REQUEST_PLUS\<close> and a mutation state was stored with \<open>set_option\<close>, setting \<open>consistency\<close>
  to \<open>AT_PLUS\<close> does not raise and stores nothing, and the property reads \<open>REQUEST_PLUS\<close>.
\<close>

theorem consistency_readback_counterexample:
  "consistency_set example_query (PScanConsistency REQUEST_PLUS)
     = Inr (set_option example_query ''scan_consistency'' (PStr ''request_plus''))
   \<and> ''mutation_state'' \<in> fst ` set (params both_set)
   \<and> consistency_set both_set (PScanConsistency AT_PLUS) = Inr both_set
   \<and> consistency both_set = PScanConsistency REQUEST_PLUS"
  by (simp add: both_set_def example_query_def N1QLQuery_init_def set_option_def
      consistency_set_def consistency_def params_get_def example_mutation_state_def)

text \<open>
  C9, amended. With no \<open>mutation_state\<close> parameter, setting \<open>consistency\<close> to \<open>AT_PLUS\<close>, as
  the enum member or as its string value, raises \<open>InvalidArgumentException\<close>. With a
  \<open>mutation_state\<close> parameter present, setting \<open>consistency\<close> to any value raises nothing
  and leaves the query as it is; the property then reads \<open>AT_PLUS\<close> when no
  \<open>scan_consistency\<close> parameter is stored.
\<close>

theorem consistency_at_plus:
  "(''mutation_state'' \<notin> fst ` set (params q)
      \<longrightarrow> consistency_set q (PScanConsistency AT_PLUS) = Inl consistency_at_plus_error
        \<and> consistency_set q (PStr ''at_plus'') = Inl consistency_at_plus_error)
   \<and> (''mutation_state'' \<in> fst ` set (params q) \<longrightarrow> consistency_set q v = Inr q)
   \<and> (''mutation_state'' \<in> fst ` set (params q) \<and> params_get q ''scan_consistency'' = PNone
      \<longrightarrow> consistency q = PScanConsistency AT_PLUS)"
  by (simp add: consistency_set_def consistency_def)

lemma keys_update: "fst ` set (AList.update k v al) = insert k (fst ` set al)"
  using dom_update [of k v al] by (simp add: dom_map_of_conv_image_fst)

text \<open>
  The \<open>consistent_with\<close> setter, when it succeeds, leaves a query with a \<open>mutation_state\<close>
  and no \<open>scan_consistency\<close>, whatever the query held before.
\<close>

lemma consistent_with_set_establishes:
  assumes "consistent_with_set q ms = Inr q'"
  shows "''mutation_state'' \<in> fst ` set (params q') \<and> params_get q' ''scan_consistency'' = PNone"
  using assms
  by (auto simp: consistent_with_set_def set_option_def params_get_def keys_update
      update_conv' delete_conv' split: if_splits option.splits)

theorem consistency_at_plus_witness:
  "''mutation_state'' \<notin> fst ` set (params example_query)
   \<and> consistency_set example_query (PScanConsistency AT_PLUS) = Inl consistency_at_plus_error
   \<and> consistency_set example_query (PStr ''at_plus'') = Inl consistency_at_plus_error
   \<and> consistent_with_set example_query (PObject ''MutationState'' example_mutation_state)
       = Inr with_mutation_state
   \<and> ''mutation_state'' \<in> fst ` set (params with_mutation_state)
   \<and> params_get with_mutation_state ''scan_consistency'' = PNone
   \<and> consistency_set with_mutation_state (PScanConsistency AT_PLUS) = Inr with_mutation_state
   \<and> consistency with_mutation_state = PScanConsistency AT_PLUS"
proof -
  have a: "''mutation_state'' \<notin> fst ` set (params example_query)"
    by (simp add: example_query_def N1QLQuery_init_def)
  have b: "''mutation_state'' \<in> fst ` set (params with_mutation_state)"
    by (simp add: with_mutation_state_def example_query_def N1QLQuery_init_def set_option_def)
  have c: "params_get with_mutation_state ''scan_consistency'' = PNone"
    by (simp add: with_mutation_state_def example_query_def N1QLQuery_init_def set_option_def
        params_get_def)
  have d: "consistent_with_set example_query (PObject ''MutationState'' example_mutation_state)
       = Inr with_mutation_state"
    by (simp add: with_mutation_state_def example_query_def N1QLQuery_init_def set_option_def
        params_get_def consistent_with_set_def consistency_def example_mutation_state_def)
  from consistency_at_plus [of example_query "PScanConsistency AT_PLUS"]
    consistency_at_plus [of with_mutation_state "PScanConsistency AT_PLUS"] a b c d
  show ?thesis by blast
qed

section \<open>The timeout property\<close>

text \<open>For every non-zero \<open>timedelta\<close> the setter succeeds and the getter then raises.\<close>

lemma timeout_roundtrip_raises:
  "us \<noteq> 0 \<Longrightarrow>
   timeout_set q (PTimedelta us) = Inr (set_option q ''timeout'' (PFloat (total_seconds us)))
   \<and> timeout parse (set_option q ''timeout'' (PFloat (total_seconds us)))
       = Inl (PyTypeError ''object is not subscriptable'')"
  by (simp add: timeout_def set_option_def params_get_def update_conv' total_seconds_def)

text \<open>
  C10 claims that after \<open>q.timeout = t\<close> for a non-zero \<open>timedelta\<close> \<open>t\<close>, reading
  \<open>q.timeout\<close> returns \<open>t.total_seconds()\<close>. On the code, for \<open>t\<close> of 75 seconds and any
  query: the setter stores the float 75.0, and the getter, which slices the stored value
  with \<open>value[:-1]\<close>, raises \<open>TypeError\<close>.
\<close>

theorem timeout_getter_raises:
  "timeout_set q (PTimedelta 75000000) = Inr (set_option q ''timeout'' (PFloat 75))
   \<and> timeout parse (set_option q ''timeout'' (PFloat 75))
       = Inl (PyTypeError ''object is not subscriptable'')"
  by (simp add: timeout_def set_option_def params_get_def update_conv' total_seconds_def)

end
